theory Spec2Isabelle
  imports Main "HOL-Library.FSet"
begin

section \<open>Configuration of the variable-sensitivity domain\<close>

text \<open>
  The header \<^verbatim>\<open>variable_sensitivity_object_factory.h\<close> declares the
  configuration \<^verbatim>\<open>vsd_configt\<close> and the object factory. The configuration is a
  struct of three anonymous structs of booleans; each becomes a record.
\<close>

record primitive_sensitivityt =
  struct_sensitivity :: bool
  array_sensitivity :: bool
  pointer_sensitivity :: bool

record context_trackingt =
  data_dependency_context :: bool
  last_write_context :: bool

record advanced_sensitivitiest =
  intervals :: bool
  value_set :: bool
  new_value_set :: bool

record vsd_configt =
  primitive_sensitivity :: primitive_sensitivityt
  context_tracking :: context_trackingt
  advanced_sensitivities :: advanced_sensitivitiest

text \<open>
  The options object (\<^verbatim>\<open>util/options.h\<close>) is read by \<^verbatim>\<open>from_options\<close> only
  through \<^verbatim>\<open>get_bool_option\<close>; the class is outside the header, so an options
  object is taken as that observation: the boolean it answers for each option name.
\<close>

type_synonym optionst = "string \<Rightarrow> bool"

definition get_bool_option :: "optionst \<Rightarrow> string \<Rightarrow> bool" where
  "get_bool_option options name = options name"

text \<open>
  The exception thrown by \<^verbatim>\<open>from_options\<close> is constructed from three strings,
  in this order: the message, the offending flags and the suggested fix. The class
  is declared outside the header; the fields carry the names the spec gives them.
\<close>

record invalid_command_line_argument_exceptiont =
  message :: string
  offending_flags :: string
  suggested_fix :: string

text \<open>\<^verbatim>\<open>vsd_configt config{}\<close> value-initialises every flag to false.\<close>

definition config_init :: vsd_configt where
  "config_init =
     \<lparr>primitive_sensitivity =
        \<lparr>struct_sensitivity = False, array_sensitivity = False,
         pointer_sensitivity = False\<rparr>,
      context_tracking =
        \<lparr>data_dependency_context = False, last_write_context = False\<rparr>,
      advanced_sensitivities =
        \<lparr>intervals = False, value_set = False, new_value_set = False\<rparr>\<rparr>"

definition from_options ::
  "optionst \<Rightarrow> invalid_command_line_argument_exceptiont + vsd_configt" where
  "from_options options =
     (let config = config_init in
      if get_bool_option options ''value-set'' \<and>
         get_bool_option options ''data-dependencies''
      then Inl \<lparr>message =
                  ''Value set is not currently supported with data dependency analysis'',
                offending_flags = ''--value-set --data-dependencies'',
                suggested_fix = ''--data-dependencies''\<rparr>
      else
        let config = config\<lparr>primitive_sensitivity :=
              (primitive_sensitivity config)
                \<lparr>struct_sensitivity := get_bool_option options ''structs''\<rparr>\<rparr>;
            config = config\<lparr>primitive_sensitivity :=
              (primitive_sensitivity config)
                \<lparr>array_sensitivity := get_bool_option options ''arrays''\<rparr>\<rparr>;
            config = config\<lparr>primitive_sensitivity :=
              (primitive_sensitivity config)
                \<lparr>pointer_sensitivity := get_bool_option options ''pointers''\<rparr>\<rparr>;
            config = config\<lparr>context_tracking :=
              (context_tracking config)
                \<lparr>last_write_context := \<not> get_bool_option options ''value-set''\<rparr>\<rparr>;
            config = config\<lparr>context_tracking :=
              (context_tracking config)
                \<lparr>data_dependency_context :=
                   get_bool_option options ''data-dependencies''\<rparr>\<rparr>;
            config = config\<lparr>advanced_sensitivities :=
              (advanced_sensitivities config)
                \<lparr>intervals := get_bool_option options ''interval''\<rparr>\<rparr>;
            config = config\<lparr>advanced_sensitivities :=
              (advanced_sensitivities config)
                \<lparr>value_set := get_bool_option options ''value-set''\<rparr>\<rparr>;
            config = config\<lparr>advanced_sensitivities :=
              (advanced_sensitivities config)
                \<lparr>new_value_set := get_bool_option options ''new-value-set''\<rparr>\<rparr>
        in Inr config)"

text \<open>
  The three presets. The static functions \<^verbatim>\<open>value_set()\<close> and \<^verbatim>\<open>intervals()\<close>
  share their names with fields of the configuration, so the presets carry the
  suffix \<open>_preset\<close> here.
\<close>

definition constant_domain :: vsd_configt where
  "constant_domain =
     (let config = config_init;
          config = config\<lparr>primitive_sensitivity :=
            (primitive_sensitivity config)\<lparr>pointer_sensitivity := True\<rparr>\<rparr>;
          config = config\<lparr>primitive_sensitivity :=
            (primitive_sensitivity config)\<lparr>array_sensitivity := True\<rparr>\<rparr>;
          config = config\<lparr>primitive_sensitivity :=
            (primitive_sensitivity config)\<lparr>struct_sensitivity := True\<rparr>\<rparr>;
          config = config\<lparr>context_tracking :=
            (context_tracking config)\<lparr>last_write_context := True\<rparr>\<rparr>
      in config)"

definition value_set_preset :: vsd_configt where
  "value_set_preset =
     (let config = config_init;
          config = config\<lparr>primitive_sensitivity :=
            (primitive_sensitivity config)\<lparr>pointer_sensitivity := True\<rparr>\<rparr>;
          config = config\<lparr>primitive_sensitivity :=
            (primitive_sensitivity config)\<lparr>array_sensitivity := True\<rparr>\<rparr>;
          config = config\<lparr>primitive_sensitivity :=
            (primitive_sensitivity config)\<lparr>struct_sensitivity := True\<rparr>\<rparr>;
          config = config\<lparr>advanced_sensitivities :=
            (advanced_sensitivities config)\<lparr>value_set := True\<rparr>\<rparr>
      in config)"

definition intervals_preset :: vsd_configt where
  "intervals_preset =
     (let config = config_init;
          config = config\<lparr>primitive_sensitivity :=
            (primitive_sensitivity config)\<lparr>pointer_sensitivity := True\<rparr>\<rparr>;
          config = config\<lparr>primitive_sensitivity :=
            (primitive_sensitivity config)\<lparr>array_sensitivity := True\<rparr>\<rparr>;
          config = config\<lparr>primitive_sensitivity :=
            (primitive_sensitivity config)\<lparr>struct_sensitivity := True\<rparr>\<rparr>;
          config = config\<lparr>context_tracking :=
            (context_tracking config)\<lparr>last_write_context := True\<rparr>\<rparr>;
          config = config\<lparr>advanced_sensitivities :=
            (advanced_sensitivities config)\<lparr>intervals := True\<rparr>\<rparr>
      in config)"

section \<open>The object factory\<close>

text \<open>
  The factory holds the configuration it was built with and a flag
  \<^verbatim>\<open>initialized\<close>.
\<close>

record variable_sensitivity_object_factoryt =
  configuration :: vsd_configt
  initialized :: bool

definition configured_with :: "vsd_configt \<Rightarrow> variable_sensitivity_object_factoryt" where
  "configured_with options = \<lparr>configuration = options, initialized = True\<rparr>"

text \<open>
  Expressions, types and namespaces come from \<^verbatim>\<open>util/\<close>. The factory reads an
  expression only through \<^verbatim>\<open>e.type()\<close> and a namespace only through
  \<^verbatim>\<open>ns.follow\<close>, and compares types with \<^verbatim>\<open>==\<close>: types stay a type
  variable, an expression is a record with its type, a namespace a record with its
  resolver. The environment is passed through untouched and stays a type variable.
\<close>

record 'ty exprt =
  type :: 'ty

record 'ty namespacet =
  follow :: "'ty \<Rightarrow> 'ty"

text \<open>
  The two context classes the factory instantiates
  \<^verbatim>\<open>initialize_context_abstract_object\<close> with.
\<close>

datatype context_classt = data_dependency_contextt | write_location_contextt

text \<open>
  The abstract-object classes are template parameters of the factory, and their
  constructors are defined in other headers. An object is therefore the record of
  the constructor call that made it: the class \<open>'cls\<close> and the arguments, in the
  order the factory passes them. There are four calls in the header:
  \<^verbatim>\<open>new abstract_object_classt(type, top, bottom)\<close>,
  \<^verbatim>\<open>new abstract_object_classt(e, environment, ns)\<close>,
  \<^verbatim>\<open>new context_classt(child, type, top, bottom)\<close> and
  \<^verbatim>\<open>new context_classt(child, e, environment, ns)\<close>.
\<close>

datatype ('cls, 'ty, 'env) abstract_objectt =
    New_object 'cls 'ty bool bool
  | New_object_from_expr 'cls "'ty exprt" 'env "'ty namespacet"
  | New_context context_classt "('cls, 'ty, 'env) abstract_objectt" 'ty bool bool
  | New_context_from_expr context_classt "('cls, 'ty, 'env) abstract_objectt"
      "'ty exprt" 'env "'ty namespacet"

text \<open>
  A failed \<^verbatim>\<open>PRECONDITION\<close> aborts the call; it is the only failure here.
  The parameters \<^verbatim>\<open>top\<close> and \<^verbatim>\<open>bottom\<close> are written \<open>tp\<close> and \<open>bt\<close>:
  \<open>top\<close> is a constant of HOL.
\<close>

datatype contract_violationt = Precondition_failed

definition initialize_context_abstract_object ::
  "variable_sensitivity_object_factoryt \<Rightarrow> 'cls \<Rightarrow> context_classt \<Rightarrow> 'ty \<Rightarrow> bool \<Rightarrow> bool \<Rightarrow>
   'ty exprt \<Rightarrow> 'env \<Rightarrow> 'ty namespacet \<Rightarrow>
   contract_violationt + ('cls, 'ty, 'env) abstract_objectt" where
  "initialize_context_abstract_object this abstract_object_classt context_class
       ty tp bt e environment ns =
     (if tp \<or> bt
      then Inr (New_context context_class
                  (New_object abstract_object_classt ty tp bt) ty tp bt)
      else if ty = follow ns (type e)
      then Inr (New_context_from_expr context_class
                  (New_object_from_expr abstract_object_classt e environment ns)
                  e environment ns)
      else Inl Precondition_failed)"

definition initialize_abstract_object ::
  "variable_sensitivity_object_factoryt \<Rightarrow> 'cls \<Rightarrow> 'ty \<Rightarrow> bool \<Rightarrow> bool \<Rightarrow>
   'ty exprt \<Rightarrow> 'env \<Rightarrow> 'ty namespacet \<Rightarrow>
   contract_violationt + ('cls, 'ty, 'env) abstract_objectt" where
  "initialize_abstract_object this abstract_object_classt ty tp bt e environment ns =
     (if data_dependency_context (context_tracking (configuration this))
      then initialize_context_abstract_object this abstract_object_classt
             data_dependency_contextt ty tp bt e environment ns
      else if last_write_context (context_tracking (configuration this))
      then initialize_context_abstract_object this abstract_object_classt
             write_location_contextt ty tp bt e environment ns
      else if tp \<or> bt
      then Inr (New_object abstract_object_classt ty tp bt)
      else if ty = follow ns (type e)
      then Inr (New_object_from_expr abstract_object_classt e environment ns)
      else Inl Precondition_failed)"

text \<open>
  Observations on the returned object. The wrapper a context constructor puts around
  its child, how many wrappers are stacked, and the object under them.
\<close>

fun context_of :: "('cls, 'ty, 'env) abstract_objectt \<Rightarrow> context_classt option" where
  "context_of (New_object c t tp bt) = None"
| "context_of (New_object_from_expr c e env ns) = None"
| "context_of (New_context k child t tp bt) = Some k"
| "context_of (New_context_from_expr k child e env ns) = Some k"

fun nesting_depth :: "('cls, 'ty, 'env) abstract_objectt \<Rightarrow> nat" where
  "nesting_depth (New_object c t tp bt) = 0"
| "nesting_depth (New_object_from_expr c e env ns) = 0"
| "nesting_depth (New_context k child t tp bt) = Suc (nesting_depth child)"
| "nesting_depth (New_context_from_expr k child e env ns) = Suc (nesting_depth child)"

fun unwrap :: "('cls, 'ty, 'env) abstract_objectt \<Rightarrow> ('cls, 'ty, 'env) abstract_objectt" where
  "unwrap (New_context k child t tp bt) = child"
| "unwrap (New_context_from_expr k child e env ns) = child"
| "unwrap obj = obj"

text \<open>
  The object the factory would build with no context tracking: the chosen class
  constructed in the requested lattice state, or from the seed expression.
\<close>

definition base_object ::
  "'cls \<Rightarrow> 'ty \<Rightarrow> bool \<Rightarrow> bool \<Rightarrow> 'ty exprt \<Rightarrow> 'env \<Rightarrow> 'ty namespacet \<Rightarrow>
   ('cls, 'ty, 'env) abstract_objectt" where
  "base_object c ty tp bt e environment ns =
     (if tp \<or> bt then New_object c ty tp bt
      else New_object_from_expr c e environment ns)"

text \<open>
  Modelled from the spec: the lattice state of an abstract object. The data model
  gives an object the flags \<open>is_top\<close> and \<open>is_bottom\<close>, never both true, and a
  payload when neither is set: an object is top, or bottom, or carries a value.
\<close>

datatype lattice_statet = Top_state | Bottom_state | Value_state

text \<open>
  Modelled from the spec: the broken invariant of an object asked to be top and
  bottom at once, which the error taxonomy lists among the contract violations.
\<close>

datatype invariant_violationt = Simultaneous_top_and_bottom

text \<open>
  Modelled from the spec: what the constructor call recorded in an object yields.
  The constructors are defined outside the header. The \<^verbatim>\<open>(type, top, bottom)\<close>
  constructor yields the object in the lattice state the flags name, and with both
  flags set it yields no object: that is the contract violation, which aborts. What
  the \<^verbatim>\<open>(e, environment, ns)\<close> constructor of a class makes of a seed
  expression is not described; it is the parameter \<open>seeded\<close>, which answers the
  state for the class and the arguments. A context wrapper delegates to the object
  it wraps and never alters its lattice result.
\<close>

type_synonym ('cls, 'ty, 'env) seed_statet =
  "'cls \<Rightarrow> 'ty exprt \<Rightarrow> 'env \<Rightarrow> 'ty namespacet \<Rightarrow> lattice_statet"

fun lattice_state ::
  "('cls, 'ty, 'env) seed_statet \<Rightarrow> ('cls, 'ty, 'env) abstract_objectt \<Rightarrow>
   invariant_violationt + lattice_statet" where
  "lattice_state seeded (New_object c t tp bt) =
     (if tp \<and> bt then Inl Simultaneous_top_and_bottom
      else if tp then Inr Top_state
      else if bt then Inr Bottom_state
      else Inr Value_state)"
| "lattice_state seeded (New_object_from_expr c e env ns) = Inr (seeded c e env ns)"
| "lattice_state seeded (New_context k child t tp bt) = lattice_state seeded child"
| "lattice_state seeded (New_context_from_expr k child e env ns) =
     lattice_state seeded child"

text \<open>
  Modelled from the spec: \<^verbatim>\<open>is_top()\<close> and \<^verbatim>\<open>is_bottom()\<close> of the
  abstract-object classes, defined outside the header: whether the object is in the
  top state, or in the bottom state. Where the construction is a contract violation
  there is no object to ask, and the answer is the violation.
\<close>

definition is_top ::
  "('cls, 'ty, 'env) seed_statet \<Rightarrow> ('cls, 'ty, 'env) abstract_objectt \<Rightarrow>
   invariant_violationt + bool" where
  "is_top seeded obj =
     (case lattice_state seeded obj of
        Inl violation \<Rightarrow> Inl violation
      | Inr state \<Rightarrow> Inr (state = Top_state))"

definition is_bottom ::
  "('cls, 'ty, 'env) seed_statet \<Rightarrow> ('cls, 'ty, 'env) abstract_objectt \<Rightarrow>
   invariant_violationt + bool" where
  "is_bottom seeded obj =
     (case lattice_state seeded obj of
        Inl violation \<Rightarrow> Inl violation
      | Inr state \<Rightarrow> Inr (state = Bottom_state))"

section \<open>Lattice values and their merge\<close>

text \<open>
  The merge operations of the abstract-object classes are defined in the headers the
  factory includes, not in the factory. This section models them from the spec. It
  is a second, separate model: \<open>abstract_objectt\<close> above records which constructor
  the factory calls, \<open>abstract_valuet\<close> below is the lattice value the spec
  describes.
\<close>

text \<open>
  Modelled from the spec: the kinds of composite for which the insensitive
  representation keeps a single summary (array, struct, pointer, union; for unions it
  is the only representation).
\<close>

datatype summary_kindt = Array_kind | Struct_kind | Pointer_kind | Union_kind

text \<open>
  Modelled from the spec: the abstract object of the data model, a value that is top,
  or bottom, or else carries the payload of its variant. The two-value variant has
  no payload: its objects are \<open>Top\<close> and \<open>Bottom\<close>. A constant carries the
  constant; an interval its lower and upper bound, where \<open>None\<close> is the unbounded
  bound (minus infinity below, plus infinity above); a value set the explicit set
  of candidate values; a sensitive pointer the set of targets with offsets; a
  sensitive array one object per index; a sensitive struct one object per field,
  in the order of the type; an insensitive composite the single summary object.
\<close>

datatype abstract_valuet =
    Top
  | Bottom
  | Constant int
  | Interval "int option" "int option"
  | Value_set "int fset"
  | Pointer_sensitive "(string \<times> int) fset"
  | Array_sensitive "abstract_valuet list"
  | Struct_sensitive "(string \<times> abstract_valuet) list"
  | Insensitive summary_kindt abstract_valuet

text \<open>
  Modelled from the spec: the bounds of the convex hull, the minimum of the two
  lower bounds and the maximum of the two upper bounds; an unbounded bound stays
  unbounded.
\<close>

fun min_lower :: "int option \<Rightarrow> int option \<Rightarrow> int option" where
  "min_lower (Some a) (Some b) = Some (min a b)"
| "min_lower _ _ = None"

fun max_upper :: "int option \<Rightarrow> int option \<Rightarrow> int option" where
  "max_upper (Some a) (Some b) = Some (max a b)"
| "max_upper _ _ = None"

text \<open>
  Modelled from the spec: \<^verbatim>\<open>merge\<close> of the abstract-object variants. \<open>K\<close> is
  the configured cardinality bound of the value-set and pointer variants. Merge is
  the join of the lattice, in which top is maximal uncertainty and bottom is no
  information: merging with top gives top and merging with bottom gives the other
  operand. On payloads: equal constants keep the constant and differing constants
  give top; intervals give the convex hull; value sets and pointer target sets are
  united and collapse to top when the union has more than \<open>K\<close> members; a
  sensitive array merges index by index and a sensitive struct field by field,
  each delegating to the member's merge; an insensitive composite delegates once to
  the summary. Widening of intervals acts across the iterations of the fixpoint
  and is not part of the binary merge. Objects of different variants are not of the
  same type and the spec gives them no merge; the function answers \<open>Top\<close> there,
  and cuts lists of different length to the shorter one.
\<close>

fun merge :: "nat \<Rightarrow> abstract_valuet \<Rightarrow> abstract_valuet \<Rightarrow> abstract_valuet"
  and merge_elements :: "nat \<Rightarrow> abstract_valuet list \<Rightarrow> abstract_valuet list \<Rightarrow> abstract_valuet list"
  and merge_fields :: "nat \<Rightarrow> (string \<times> abstract_valuet) list \<Rightarrow> (string \<times> abstract_valuet) list \<Rightarrow>
     (string \<times> abstract_valuet) list"
where
  "merge K Top b = Top"
| "merge K a Top = Top"
| "merge K Bottom b = b"
| "merge K a Bottom = a"
| "merge K (Constant x) (Constant y) = (if x = y then Constant x else Top)"
| "merge K (Interval l1 u1) (Interval l2 u2) = Interval (min_lower l1 l2) (max_upper u1 u2)"
| "merge K (Value_set s) (Value_set t) =
     (if K < fcard (s |\<union>| t) then Top else Value_set (s |\<union>| t))"
| "merge K (Pointer_sensitive s) (Pointer_sensitive t) =
     (if K < fcard (s |\<union>| t) then Top else Pointer_sensitive (s |\<union>| t))"
| "merge K (Array_sensitive xs) (Array_sensitive ys) = Array_sensitive (merge_elements K xs ys)"
| "merge K (Struct_sensitive fs) (Struct_sensitive gs) = Struct_sensitive (merge_fields K fs gs)"
| "merge K (Insensitive k x) (Insensitive k' y) =
     (if k = k' then Insensitive k (merge K x y) else Top)"
| "merge K a b = Top"
| "merge_elements K (x # xs) (y # ys) = merge K x y # merge_elements K xs ys"
| "merge_elements K xs ys = []"
| "merge_fields K ((n, x) # fs) ((m, y) # gs) = (n, merge K x y) # merge_fields K fs gs"
| "merge_fields K fs gs = []"

text \<open>
  Modelled from the spec: the type of an abstract object, as far as it decides the
  variant and the shape of the payload (variant selection is a function of the type
  category and the configuration). A sensitive array type gives the element type and
  the number of elements, a sensitive struct type the fields in order, an
  insensitive type the kind of composite and the type of the summary.
\<close>

datatype vsd_typet =
    Two_value_t
  | Constant_t
  | Interval_t
  | Value_set_t
  | Pointer_sensitive_t
  | Array_sensitive_t vsd_typet nat
  | Struct_sensitive_t "(string \<times> vsd_typet) list"
  | Insensitive_t summary_kindt vsd_typet

text \<open>
  Modelled from the spec: an object is of a type when it is top or bottom, or its
  payload is of the variant of the type, a value set or target set has at most
  \<open>K\<close> members, an array has the elements and a struct the fields of the type,
  each of its type. Objects of the same type are the objects of one type.
\<close>

fun has_type :: "nat \<Rightarrow> vsd_typet \<Rightarrow> abstract_valuet \<Rightarrow> bool"
  and elements_have_type :: "nat \<Rightarrow> vsd_typet \<Rightarrow> abstract_valuet list \<Rightarrow> bool"
  and fields_have_types :: "nat \<Rightarrow> (string \<times> vsd_typet) list \<Rightarrow> (string \<times> abstract_valuet) list \<Rightarrow> bool"
where
  "has_type K t Top = True"
| "has_type K t Bottom = True"
| "has_type K Constant_t (Constant x) = True"
| "has_type K Interval_t (Interval l u) = True"
| "has_type K Value_set_t (Value_set s) = (fcard s \<le> K)"
| "has_type K Pointer_sensitive_t (Pointer_sensitive s) = (fcard s \<le> K)"
| "has_type K (Array_sensitive_t t n) (Array_sensitive xs) =
     (length xs = n \<and> elements_have_type K t xs)"
| "has_type K (Struct_sensitive_t fts) (Struct_sensitive fs) = fields_have_types K fts fs"
| "has_type K (Insensitive_t k t) (Insensitive k' x) = (k = k' \<and> has_type K t x)"
| "has_type K t a = False"
| "elements_have_type K t [] = True"
| "elements_have_type K t (x # xs) = (has_type K t x \<and> elements_have_type K t xs)"
| "fields_have_types K [] [] = True"
| "fields_have_types K ((n, t) # fts) ((m, x) # fs) =
     (n = m \<and> has_type K t x \<and> fields_have_types K fts fs)"
| "fields_have_types K fts fs = False"

section \<open>Concrete inputs\<close>

text \<open>
  An options object in which exactly the listed options are on, and a factory
  configured with the two context-tracking flags given and every other flag off.
  They serve as concrete inputs below.
\<close>

definition options_of :: "string list \<Rightarrow> optionst" where
  "options_of names = (\<lambda>name. name \<in> set names)"

definition factory_of :: "bool \<Rightarrow> bool \<Rightarrow> variable_sensitivity_object_factoryt" where
  "factory_of dd lw =
     configured_with (config_init\<lparr>context_tracking :=
        \<lparr>data_dependency_context = dd, last_write_context = lw\<rparr>\<rparr>)"

text \<open>
  A seed-state parameter under which every object built from a seed expression
  carries a value.
\<close>

definition seed_value :: "(string, nat, unit) seed_statet" where
  "seed_value c e env ns = Value_state"

text \<open>
  Three objects of one struct type with a value-set field, an array of intervals and
  an insensitive pointer over a constant.
\<close>

definition example_type :: vsd_typet where
  "example_type =
     Struct_sensitive_t
       [(''a'', Value_set_t), (''b'', Array_sensitive_t Interval_t 1),
        (''c'', Insensitive_t Pointer_kind Constant_t)]"

definition example_a :: abstract_valuet where
  "example_a = Struct_sensitive
     [(''a'', Value_set {|5|}), (''b'', Array_sensitive [Interval (Some 1) (Some 3)]),
      (''c'', Insensitive Pointer_kind (Constant 4))]"

definition example_b :: abstract_valuet where
  "example_b = Struct_sensitive
     [(''a'', Value_set {|7|}), (''b'', Array_sensitive [Interval (Some 5) (Some 7)]),
      (''c'', Insensitive Pointer_kind (Constant 4))]"

definition example_c :: abstract_valuet where
  "example_c = Struct_sensitive
     [(''a'', Value_set {|9|}), (''b'', Array_sensitive [Bottom]),
      (''c'', Insensitive Pointer_kind (Constant 6))]"


section \<open>Properties of the configuration\<close>

lemma get_bool_option_options_of:
  "get_bool_option (options_of names) name = (name \<in> set names)"
  by (simp add: get_bool_option_def options_of_def)

lemma factory_of_simps:
  "data_dependency_context (context_tracking (configuration (factory_of dd lw))) = dd"
  "last_write_context (context_tracking (configuration (factory_of dd lw))) = lw"
  by (simp_all add: factory_of_def configured_with_def)

text \<open>
  C1. Whenever the options answer true for both \<^verbatim>\<open>value-set\<close> and
  \<^verbatim>\<open>data-dependencies\<close>, \<^verbatim>\<open>from_options\<close> fails: the result is the
  exception carrying the message, the conflicting flag pair
  \<^verbatim>\<open>--value-set --data-dependencies\<close> and the suggested fix
  \<^verbatim>\<open>--data-dependencies\<close>, and it is no configuration.
\<close>

theorem from_options_conflict:
  assumes "get_bool_option options ''value-set''"
    and "get_bool_option options ''data-dependencies''"
  shows "from_options options =
           Inl \<lparr>message =
                  ''Value set is not currently supported with data dependency analysis'',
                offending_flags = ''--value-set --data-dependencies'',
                suggested_fix = ''--data-dependencies''\<rparr>
         \<and> (\<forall>config. from_options options \<noteq> Inr config)"
  using assms by (simp add: from_options_def Let_def)

theorem from_options_conflict_witness:
  "get_bool_option (options_of [''value-set'', ''data-dependencies'']) ''value-set'' \<and>
   get_bool_option (options_of [''value-set'', ''data-dependencies''])
     ''data-dependencies'' \<and>
   from_options (options_of [''value-set'', ''data-dependencies'']) =
     Inl \<lparr>message =
            ''Value set is not currently supported with data dependency analysis'',
          offending_flags = ''--value-set --data-dependencies'',
          suggested_fix = ''--data-dependencies''\<rparr>"
proof -
  let ?o = "options_of [''value-set'', ''data-dependencies'']"
  have vs: "get_bool_option ?o ''value-set''"
    by (simp add: get_bool_option_options_of)
  have dd: "get_bool_option ?o ''data-dependencies''"
    by (simp add: get_bool_option_options_of)
  from from_options_conflict [OF vs dd] vs dd show ?thesis by simp
qed

text \<open>
  C3. Whenever \<^verbatim>\<open>value-set\<close> is true and \<^verbatim>\<open>data-dependencies\<close> is false,
  \<^verbatim>\<open>from_options\<close> returns a configuration, and its last-write context flag is
  false.
\<close>

theorem from_options_value_set_only:
  assumes "get_bool_option options ''value-set''"
    and "\<not> get_bool_option options ''data-dependencies''"
  shows "\<exists>config. from_options options = Inr config \<and>
           \<not> last_write_context (context_tracking config)"
  using assms by (simp add: from_options_def Let_def)

theorem from_options_value_set_only_witness:
  "get_bool_option (options_of [''value-set'']) ''value-set'' \<and>
   \<not> get_bool_option (options_of [''value-set'']) ''data-dependencies'' \<and>
   (\<exists>config. from_options (options_of [''value-set'']) = Inr config \<and>
      \<not> last_write_context (context_tracking config))"
proof -
  let ?o = "options_of [''value-set'']"
  have vs: "get_bool_option ?o ''value-set''"
    by (simp add: get_bool_option_options_of)
  have dd: "\<not> get_bool_option ?o ''data-dependencies''"
    by (simp add: get_bool_option_options_of)
  from from_options_value_set_only [OF vs dd] vs dd show ?thesis by simp
qed

text \<open>
  C8. The presets are exactly these configurations. \<^verbatim>\<open>constant_domain()\<close>:
  struct, array and pointer sensitivity and the last-write context on, everything
  else off. \<^verbatim>\<open>intervals()\<close>: the same with intervals on. \<^verbatim>\<open>value_set()\<close>:
  struct, array and pointer sensitivity and the value-set domain on, both context
  flags and everything else off.
\<close>

theorem presets_exact:
  "constant_domain =
     \<lparr>primitive_sensitivity =
        \<lparr>struct_sensitivity = True, array_sensitivity = True,
         pointer_sensitivity = True\<rparr>,
      context_tracking = \<lparr>data_dependency_context = False, last_write_context = True\<rparr>,
      advanced_sensitivities =
        \<lparr>intervals = False, value_set = False, new_value_set = False\<rparr>\<rparr>
   \<and> intervals_preset =
     \<lparr>primitive_sensitivity =
        \<lparr>struct_sensitivity = True, array_sensitivity = True,
         pointer_sensitivity = True\<rparr>,
      context_tracking = \<lparr>data_dependency_context = False, last_write_context = True\<rparr>,
      advanced_sensitivities =
        \<lparr>intervals = True, value_set = False, new_value_set = False\<rparr>\<rparr>
   \<and> value_set_preset =
     \<lparr>primitive_sensitivity =
        \<lparr>struct_sensitivity = True, array_sensitivity = True,
         pointer_sensitivity = True\<rparr>,
      context_tracking = \<lparr>data_dependency_context = False, last_write_context = False\<rparr>,
      advanced_sensitivities =
        \<lparr>intervals = False, value_set = True, new_value_set = False\<rparr>\<rparr>"
  by (simp add: constant_domain_def intervals_preset_def value_set_preset_def
        config_init_def Let_def)

text \<open>
  C9. Whenever \<^verbatim>\<open>value-set\<close> is false, \<^verbatim>\<open>from_options\<close> returns a
  configuration whose last-write context flag is true, whatever the other options
  say: no option has to ask for it.
\<close>

theorem from_options_last_write_default:
  assumes "\<not> get_bool_option options ''value-set''"
  shows "\<exists>config. from_options options = Inr config \<and>
           last_write_context (context_tracking config)"
  using assms by (simp add: from_options_def Let_def)

theorem from_options_last_write_default_witness:
  "\<not> get_bool_option (options_of []) ''value-set'' \<and>
   (\<exists>config. from_options (options_of []) = Inr config \<and>
      last_write_context (context_tracking config))"
proof -
  have vs: "\<not> get_bool_option (options_of []) ''value-set''"
    by (simp add: get_bool_option_options_of)
  from from_options_last_write_default [OF vs] vs show ?thesis by simp
qed

text \<open>
  C10. \<^verbatim>\<open>from_options\<close> throws if and only if \<^verbatim>\<open>value-set\<close> and
  \<^verbatim>\<open>data-dependencies\<close> are both true, and returns a configuration if and only
  if they are not. In particular \<^verbatim>\<open>new-value-set\<close> with
  \<^verbatim>\<open>data-dependencies\<close> (and without \<^verbatim>\<open>value-set\<close>) is accepted, and the
  configuration returned has both flags on.
\<close>

theorem from_options_fails_only_on_conflict:
  "((\<exists>err. from_options options = Inl err) \<longleftrightarrow>
      (get_bool_option options ''value-set'' \<and>
       get_bool_option options ''data-dependencies''))
   \<and> ((\<exists>config. from_options options = Inr config) \<longleftrightarrow>
      \<not> (get_bool_option options ''value-set'' \<and>
         get_bool_option options ''data-dependencies''))
   \<and> (get_bool_option options ''new-value-set'' \<and>
       get_bool_option options ''data-dependencies'' \<and>
       \<not> get_bool_option options ''value-set'' \<longrightarrow>
       (\<exists>config. from_options options = Inr config \<and>
          new_value_set (advanced_sensitivities config) \<and>
          data_dependency_context (context_tracking config)))"
  by (simp add: from_options_def Let_def)

theorem from_options_fails_only_on_conflict_witness:
  "get_bool_option (options_of [''new-value-set'', ''data-dependencies''])
     ''new-value-set'' \<and>
   get_bool_option (options_of [''new-value-set'', ''data-dependencies''])
     ''data-dependencies'' \<and>
   \<not> get_bool_option (options_of [''new-value-set'', ''data-dependencies''])
     ''value-set'' \<and>
   (\<exists>config. from_options (options_of [''new-value-set'', ''data-dependencies'']) =
        Inr config \<and>
      new_value_set (advanced_sensitivities config) \<and>
      data_dependency_context (context_tracking config)) \<and>
   \<not> (\<exists>err. from_options (options_of [''new-value-set'', ''data-dependencies'']) =
        Inl err)"
  using from_options_fails_only_on_conflict
          [of "options_of [''new-value-set'', ''data-dependencies'']"]
  by (simp add: get_bool_option_options_of)

section \<open>Properties of the factory\<close>

text \<open>
  C2. Whenever the configuration has both the data-dependency and the last-write
  context flag set, \<^verbatim>\<open>initialize_abstract_object\<close> is the call of
  \<^verbatim>\<open>initialize_context_abstract_object\<close> with \<^verbatim>\<open>data_dependency_contextt\<close>,
  and every object it returns is wrapped in the data-dependency context.
\<close>

theorem dependency_context_precedence:
  assumes "data_dependency_context (context_tracking (configuration this))"
    and "last_write_context (context_tracking (configuration this))"
  shows "initialize_abstract_object this c ty tp bt e env ns =
           initialize_context_abstract_object this c data_dependency_contextt
             ty tp bt e env ns
         \<and> (\<forall>obj. initialize_abstract_object this c ty tp bt e env ns = Inr obj \<longrightarrow>
               context_of obj = Some data_dependency_contextt)"
  using assms
  by (auto simp add: initialize_abstract_object_def
        initialize_context_abstract_object_def split: if_splits)

theorem dependency_context_precedence_witness:
  "data_dependency_context (context_tracking (configuration (factory_of True True))) \<and>
   last_write_context (context_tracking (configuration (factory_of True True))) \<and>
   initialize_abstract_object (factory_of True True) ''constant_abstract_valuet''
       (7::nat) False False \<lparr>type = 7\<rparr> () \<lparr>follow = (\<lambda>t. t)\<rparr> =
     Inr (New_context_from_expr data_dependency_contextt
            (New_object_from_expr ''constant_abstract_valuet''
               \<lparr>type = 7\<rparr> () \<lparr>follow = (\<lambda>t. t)\<rparr>)
            \<lparr>type = 7\<rparr> () \<lparr>follow = (\<lambda>t. t)\<rparr>) \<and>
   context_of (New_context_from_expr data_dependency_contextt
            (New_object_from_expr ''constant_abstract_valuet''
               \<lparr>type = 7::nat\<rparr> () \<lparr>follow = (\<lambda>t. t)\<rparr>)
            \<lparr>type = 7\<rparr> () \<lparr>follow = (\<lambda>t. t)\<rparr>) = Some data_dependency_contextt"
proof -
  let ?f = "factory_of True True"
  have dd: "data_dependency_context (context_tracking (configuration ?f))"
    by (simp add: factory_of_simps)
  have lw: "last_write_context (context_tracking (configuration ?f))"
    by (simp add: factory_of_simps)
  from dependency_context_precedence [OF dd lw, of "''constant_abstract_valuet''"
      "7::nat" False False "\<lparr>type = 7\<rparr>" "()" "\<lparr>follow = (\<lambda>t. t)\<rparr>"] dd lw
  show ?thesis by (simp add: initialize_context_abstract_object_def)
qed

text \<open>
  C4. Whenever the call meets the contract (a lattice state is requested, or the
  type is the resolved type of the seed expression), the factory returns an object,
  and: with the data-dependency flag set it is the data-dependency wrapper, else
  with the last-write flag set it is the write-location wrapper, in both cases put
  once (nesting depth one) around the base object of the chosen class; with
  neither flag set it is that base object itself, unwrapped.
\<close>

theorem wrapped_exactly_once:
  assumes "tp \<or> bt \<or> ty = follow ns (type e)"
  shows "\<exists>obj. initialize_abstract_object this c ty tp bt e env ns = Inr obj \<and>
           (if data_dependency_context (context_tracking (configuration this))
            then context_of obj = Some data_dependency_contextt \<and>
                 unwrap obj = base_object c ty tp bt e env ns \<and> nesting_depth obj = 1
            else if last_write_context (context_tracking (configuration this))
            then context_of obj = Some write_location_contextt \<and>
                 unwrap obj = base_object c ty tp bt e env ns \<and> nesting_depth obj = 1
            else obj = base_object c ty tp bt e env ns \<and> context_of obj = None \<and>
                 nesting_depth obj = 0)"
  using assms
  by (auto simp add: initialize_abstract_object_def
        initialize_context_abstract_object_def base_object_def)

theorem wrapped_exactly_once_witness:
  "(7::nat) = follow \<lparr>follow = (\<lambda>t. t)\<rparr> (type \<lparr>type = 7\<rparr>) \<and>
   (\<exists>obj. initialize_abstract_object (factory_of False True) ''interval_abstract_valuet''
        (7::nat) False False \<lparr>type = 7\<rparr> () \<lparr>follow = (\<lambda>t. t)\<rparr> = Inr obj \<and>
      context_of obj = Some write_location_contextt \<and>
      unwrap obj = New_object_from_expr ''interval_abstract_valuet''
        \<lparr>type = 7\<rparr> () \<lparr>follow = (\<lambda>t. t)\<rparr> \<and>
      nesting_depth obj = 1) \<and>
   (\<exists>obj. initialize_abstract_object (factory_of True False) ''interval_abstract_valuet''
        (7::nat) True False \<lparr>type = 8\<rparr> () \<lparr>follow = (\<lambda>t. t)\<rparr> = Inr obj \<and>
      context_of obj = Some data_dependency_contextt \<and>
      unwrap obj = New_object ''interval_abstract_valuet'' 7 True False \<and>
      nesting_depth obj = 1) \<and>
   (\<exists>obj. initialize_abstract_object (factory_of False False) ''interval_abstract_valuet''
        (7::nat) False True \<lparr>type = 8\<rparr> () \<lparr>follow = (\<lambda>t. t)\<rparr> = Inr obj \<and>
      obj = New_object ''interval_abstract_valuet'' 7 False True \<and>
      nesting_depth obj = 0)"
  using
    wrapped_exactly_once [of False False "7::nat" "\<lparr>follow = (\<lambda>t. t)\<rparr>" "\<lparr>type = 7\<rparr>"
      "factory_of False True" "''interval_abstract_valuet''" "()"]
    wrapped_exactly_once [of True False "7::nat" "\<lparr>follow = (\<lambda>t. t)\<rparr>" "\<lparr>type = 8\<rparr>"
      "factory_of True False" "''interval_abstract_valuet''" "()"]
    wrapped_exactly_once [of False True "7::nat" "\<lparr>follow = (\<lambda>t. t)\<rparr>" "\<lparr>type = 8\<rparr>"
      "factory_of False False" "''interval_abstract_valuet''" "()"]
  by (simp add: factory_of_simps base_object_def)

lemma top_bottom_exclusive:
  "\<not> (is_top seeded obj = Inr True \<and> is_bottom seeded obj = Inr True)"
  by (auto simp add: is_top_def is_bottom_def split: sum.splits)

text \<open>
  C5, as amended. Whenever the top or the bottom flag is set, the seed expression is
  ignored: two calls that differ only in the seed expression have equal results.
  Whenever exactly one of the two flags is set, the factory returns, for every type
  and configuration, the chosen class constructed from the type and the two flags,
  inside the wrapper the configuration selects and given the same type and flags,
  and the object's \<^verbatim>\<open>is_top()\<close> and \<^verbatim>\<open>is_bottom()\<close> are the flags
  requested.
\<close>

theorem top_bottom_direct:
  "(tp \<or> bt \<longrightarrow>
      initialize_abstract_object this c ty tp bt e env ns =
      initialize_abstract_object this c ty tp bt e' env ns)
   \<and> (tp \<noteq> bt \<longrightarrow>
      (\<exists>obj. initialize_abstract_object this c ty tp bt e env ns = Inr obj \<and>
         obj =
           (if data_dependency_context (context_tracking (configuration this))
            then New_context data_dependency_contextt (New_object c ty tp bt) ty tp bt
            else if last_write_context (context_tracking (configuration this))
            then New_context write_location_contextt (New_object c ty tp bt) ty tp bt
            else New_object c ty tp bt) \<and>
         is_top seeded obj = Inr tp \<and> is_bottom seeded obj = Inr bt))"
  by (auto simp add: initialize_abstract_object_def
        initialize_context_abstract_object_def is_top_def is_bottom_def)

theorem top_bottom_direct_witness:
  "(True \<or> False) \<and> True \<noteq> False \<and>
   initialize_abstract_object (factory_of False True) ''constant_abstract_valuet''
       (7::nat) True False \<lparr>type = 8\<rparr> () \<lparr>follow = id\<rparr> =
     initialize_abstract_object (factory_of False True) ''constant_abstract_valuet''
       (7::nat) True False \<lparr>type = 9\<rparr> () \<lparr>follow = id\<rparr> \<and>
   initialize_abstract_object (factory_of False True) ''constant_abstract_valuet''
       (7::nat) True False \<lparr>type = 8\<rparr> () \<lparr>follow = id\<rparr> =
     Inr (New_context write_location_contextt
            (New_object ''constant_abstract_valuet'' 7 True False) 7 True False) \<and>
   is_top seed_value
     (New_context write_location_contextt
        (New_object ''constant_abstract_valuet'' (7::nat) True False) 7 True False) =
     Inr True \<and>
   is_bottom seed_value
     (New_context write_location_contextt
        (New_object ''constant_abstract_valuet'' (7::nat) True False) 7 True False) =
     Inr False \<and>
   (\<exists>obj. initialize_abstract_object (factory_of False False) ''constant_abstract_valuet''
        (7::nat) False True \<lparr>type = 8\<rparr> () \<lparr>follow = id\<rparr> = Inr obj \<and>
      obj = New_object ''constant_abstract_valuet'' 7 False True \<and>
      is_top seed_value obj = Inr False \<and> is_bottom seed_value obj = Inr True)"
  using
    top_bottom_direct [of True False "factory_of False True"
      "''constant_abstract_valuet''" "7::nat" "\<lparr>type = 8\<rparr>" "()" "\<lparr>follow = id\<rparr>"
      "\<lparr>type = 9\<rparr>" seed_value]
    top_bottom_direct [of False True "factory_of False False"
      "''constant_abstract_valuet''" "7::nat" "\<lparr>type = 8\<rparr>" "()" "\<lparr>follow = id\<rparr>"
      "\<lparr>type = 9\<rparr>" seed_value]
  by (auto simp add: factory_of_simps)

text \<open>
  With both flags set the claim as first stated fails. The factory makes the
  \<^verbatim>\<open>(type, top, bottom)\<close> constructor call with both flags, and that
  construction is the contract violation: there is no object whose
  \<^verbatim>\<open>is_top()\<close> and \<^verbatim>\<open>is_bottom()\<close> are both true.
\<close>

theorem top_and_bottom_counterexample:
  "(True \<or> True) \<and>
   initialize_abstract_object (factory_of False False) ''constant_abstract_valuet''
       (7::nat) True True \<lparr>type = 7\<rparr> () \<lparr>follow = id\<rparr> =
     Inr (New_object ''constant_abstract_valuet'' 7 True True) \<and>
   is_top seed_value (New_object ''constant_abstract_valuet'' 7 True True) =
     Inl Simultaneous_top_and_bottom \<and>
   \<not> (is_top seed_value (New_object ''constant_abstract_valuet'' 7 True True) = Inr True \<and>
      is_bottom seed_value (New_object ''constant_abstract_valuet'' 7 True True) = Inr True)"
  by (simp add: initialize_abstract_object_def factory_of_simps is_top_def is_bottom_def)

text \<open>
  C6. With neither flag set, both \<^verbatim>\<open>initialize_abstract_object\<close> (whatever the
  configuration) and \<^verbatim>\<open>initialize_context_abstract_object\<close> (whatever the
  context class) check \<^verbatim>\<open>type == ns.follow(e.type())\<close>: when it fails the call
  ends in the precondition failure and returns no object; when it holds the call
  returns the object constructed from the seed expression, wrapped or not.
\<close>

theorem precondition_checked:
  assumes "\<not> tp" and "\<not> bt"
  shows "(ty \<noteq> follow ns (type e) \<longrightarrow>
            initialize_abstract_object this c ty tp bt e env ns = Inl Precondition_failed \<and>
            initialize_context_abstract_object this c k ty tp bt e env ns =
              Inl Precondition_failed)
       \<and> (ty = follow ns (type e) \<longrightarrow>
            (\<exists>obj. initialize_abstract_object this c ty tp bt e env ns = Inr obj \<and>
               unwrap obj = New_object_from_expr c e env ns) \<and>
            initialize_context_abstract_object this c k ty tp bt e env ns =
              Inr (New_context_from_expr k (New_object_from_expr c e env ns) e env ns))"
  using assms
  by (auto simp add: initialize_abstract_object_def
        initialize_context_abstract_object_def)

theorem precondition_checked_witness:
  "\<not> False \<and> (7::nat) \<noteq> follow \<lparr>follow = (\<lambda>t. t)\<rparr> (type \<lparr>type = 8\<rparr>) \<and>
   initialize_abstract_object (factory_of False False) ''constant_abstract_valuet''
       (7::nat) False False \<lparr>type = 8\<rparr> () \<lparr>follow = (\<lambda>t. t)\<rparr> = Inl Precondition_failed \<and>
   initialize_context_abstract_object (factory_of False False)
       ''constant_abstract_valuet'' write_location_contextt
       (7::nat) False False \<lparr>type = 8\<rparr> () \<lparr>follow = (\<lambda>t. t)\<rparr> = Inl Precondition_failed \<and>
   (7::nat) = follow \<lparr>follow = (\<lambda>t. t)\<rparr> (type \<lparr>type = 7\<rparr>) \<and>
   (\<exists>obj. initialize_abstract_object (factory_of False True) ''constant_abstract_valuet''
        (7::nat) False False \<lparr>type = 7\<rparr> () \<lparr>follow = (\<lambda>t. t)\<rparr> = Inr obj \<and>
      unwrap obj = New_object_from_expr ''constant_abstract_valuet''
        \<lparr>type = 7\<rparr> () \<lparr>follow = (\<lambda>t. t)\<rparr>)"
  using
    precondition_checked [of False False "7::nat" "\<lparr>follow = (\<lambda>t. t)\<rparr>" "\<lparr>type = 8\<rparr>"
      "factory_of False False" "''constant_abstract_valuet''" "()" write_location_contextt]
    precondition_checked [of False False "7::nat" "\<lparr>follow = (\<lambda>t. t)\<rparr>" "\<lparr>type = 7\<rparr>"
      "factory_of False True" "''constant_abstract_valuet''" "()" write_location_contextt]
  by simp

section \<open>Properties of the merge\<close>

subsection \<open>Bounds, flags and shapes\<close>

lemma min_lower_commute: "min_lower a b = min_lower b a"
  by (cases a; cases b) (simp_all add: min.commute)

lemma min_lower_assoc: "min_lower a (min_lower b c) = min_lower (min_lower a b) c"
  by (cases a; cases b; cases c) (simp_all add: min.assoc)

lemma min_lower_idem: "min_lower a a = a"
  by (cases a) simp_all

lemma max_upper_commute: "max_upper a b = max_upper b a"
  by (cases a; cases b) (simp_all add: max.commute)

lemma max_upper_assoc: "max_upper a (max_upper b c) = max_upper (max_upper a b) c"
  by (cases a; cases b; cases c) (simp_all add: max.assoc)

lemma max_upper_idem: "max_upper a a = a"
  by (cases a) simp_all

lemma merge_Top_right: "merge K a Top = Top"
  by (cases a) simp_all

lemma merge_Bottom_right: "merge K a Bottom = a"
  by (cases a) simp_all

lemma has_type_Two_value:
  "has_type K Two_value_t a \<longleftrightarrow> a = Top \<or> a = Bottom"
  by (cases a) simp_all

lemma has_type_Constant:
  "has_type K Constant_t a \<longleftrightarrow> a = Top \<or> a = Bottom \<or> (\<exists>x. a = Constant x)"
  by (cases a) simp_all

lemma has_type_Interval:
  "has_type K Interval_t a \<longleftrightarrow> a = Top \<or> a = Bottom \<or> (\<exists>l u. a = Interval l u)"
  by (cases a) simp_all

lemma has_type_Value_set:
  "has_type K Value_set_t a \<longleftrightarrow>
     a = Top \<or> a = Bottom \<or> (\<exists>s. a = Value_set s \<and> fcard s \<le> K)"
  by (cases a) simp_all

lemma has_type_Pointer_sensitive:
  "has_type K Pointer_sensitive_t a \<longleftrightarrow>
     a = Top \<or> a = Bottom \<or> (\<exists>s. a = Pointer_sensitive s \<and> fcard s \<le> K)"
  by (cases a) simp_all

lemma has_type_Array_sensitive:
  "has_type K (Array_sensitive_t t n) a \<longleftrightarrow>
     a = Top \<or> a = Bottom \<or>
     (\<exists>xs. a = Array_sensitive xs \<and> length xs = n \<and> elements_have_type K t xs)"
  by (cases a) simp_all

lemma has_type_Struct_sensitive:
  "has_type K (Struct_sensitive_t fts) a \<longleftrightarrow>
     a = Top \<or> a = Bottom \<or>
     (\<exists>fs. a = Struct_sensitive fs \<and> fields_have_types K fts fs)"
  by (cases a) simp_all

lemma has_type_Insensitive:
  "has_type K (Insensitive_t k t) a \<longleftrightarrow>
     a = Top \<or> a = Bottom \<or> (\<exists>x. a = Insensitive k x \<and> has_type K t x)"
  by (cases a) auto

lemma fcard_funion_left: "fcard s \<le> fcard (s |\<union>| t)"
  by (simp add: fcard_mono)

lemma fcard_funion_right: "fcard t \<le> fcard (s |\<union>| t)"
  by (simp add: fcard_mono)

subsection \<open>Commutativity\<close>

lemma merge_elements_commute:
  assumes "\<And>a b. has_type K t a \<Longrightarrow> has_type K t b \<Longrightarrow> merge K a b = merge K b a"
  shows "elements_have_type K t xs \<Longrightarrow> elements_have_type K t ys \<Longrightarrow>
         merge_elements K xs ys = merge_elements K ys xs"
proof (induction xs arbitrary: ys)
  case Nil
  then show ?case by (cases ys) simp_all
next
  case (Cons x xs)
  then show ?case by (cases ys) (simp_all add: assms)
qed

lemma merge_fields_commute:
  assumes "\<And>n t a b. (n, t) \<in> set fts \<Longrightarrow> has_type K t a \<Longrightarrow> has_type K t b \<Longrightarrow>
             merge K a b = merge K b a"
  shows "fields_have_types K fts fs \<Longrightarrow> fields_have_types K fts gs \<Longrightarrow>
         merge_fields K fs gs = merge_fields K gs fs"
  using assms
proof (induction fts arbitrary: fs gs)
  case Nil
  then show ?case by (cases fs; cases gs) simp_all
next
  case (Cons ft fts)
  obtain n t where ft: "ft = (n, t)" by (cases ft)
  from Cons.prems(1) ft obtain x fs' where fs: "fs = (n, x) # fs'"
    and x: "has_type K t x" and fs': "fields_have_types K fts fs'"
    by (cases fs) auto
  from Cons.prems(2) ft obtain y gs' where gs: "gs = (n, y) # gs'"
    and y: "has_type K t y" and gs': "fields_have_types K fts gs'"
    by (cases gs) auto
  have head: "merge K x y = merge K y x"
    using Cons.prems(3) [of n t x y] ft x y by simp
  have tail: "merge_fields K fs' gs' = merge_fields K gs' fs'"
  proof (rule Cons.IH [OF fs' gs'])
    fix m u a b
    assume "(m, u) \<in> set fts" "has_type K u a" "has_type K u b"
    then show "merge K a b = merge K b a"
      using Cons.prems(3) [of m u a b] by simp
  qed
  show ?case by (simp add: fs gs head tail)
qed

lemma merge_commute:
  "has_type K t a \<Longrightarrow> has_type K t b \<Longrightarrow> merge K a b = merge K b a"
proof (induction t arbitrary: a b)
  case Two_value_t
  then show ?case by (auto simp add: has_type_Two_value)
next
  case Constant_t
  then show ?case by (auto simp add: has_type_Constant)
next
  case Interval_t
  then show ?case
    by (auto simp add: has_type_Interval min_lower_commute max_upper_commute)
next
  case Value_set_t
  then show ?case by (auto simp add: has_type_Value_set sup_commute)
next
  case Pointer_sensitive_t
  then show ?case by (auto simp add: has_type_Pointer_sensitive sup_commute)
next
  case (Array_sensitive_t t n)
  have "merge_elements K xs ys = merge_elements K ys xs"
    if "elements_have_type K t xs" "elements_have_type K t ys" for xs ys
    by (rule merge_elements_commute [OF Array_sensitive_t.IH that])
  with Array_sensitive_t.prems show ?case
    by (auto simp add: has_type_Array_sensitive)
next
  case (Struct_sensitive_t fts)
  have "merge K x y = merge K y x"
    if "(n, t) \<in> set fts" "has_type K t x" "has_type K t y" for n t x y
    using Struct_sensitive_t.IH [of "(n, t)" t x y] that by simp
  then have "merge_fields K fs gs = merge_fields K gs fs"
    if "fields_have_types K fts fs" "fields_have_types K fts gs" for fs gs
    using merge_fields_commute [of fts K fs gs] that by blast
  with Struct_sensitive_t.prems show ?case
    by (auto simp add: has_type_Struct_sensitive)
next
  case (Insensitive_t k t)
  then show ?case by (auto simp add: has_type_Insensitive)
qed

lemma collapse_right: "K < fcard (t |\<union>| u) \<Longrightarrow> K < fcard (s |\<union>| (t |\<union>| u))"
  using fcard_funion_right [of "t |\<union>| u" s] by simp

lemma collapse_left: "K < fcard (s |\<union>| t) \<Longrightarrow> K < fcard (s |\<union>| (t |\<union>| u))"
  using fcard_funion_left [of "s |\<union>| t" u] by (simp add: sup_assoc)

subsection \<open>Associativity\<close>

lemma merge_elements_assoc:
  assumes "\<And>a b c. has_type K t a \<Longrightarrow> has_type K t b \<Longrightarrow> has_type K t c \<Longrightarrow>
             merge K a (merge K b c) = merge K (merge K a b) c"
  shows "elements_have_type K t xs \<Longrightarrow> elements_have_type K t ys \<Longrightarrow>
         elements_have_type K t zs \<Longrightarrow>
         merge_elements K xs (merge_elements K ys zs) =
         merge_elements K (merge_elements K xs ys) zs"
proof (induction xs arbitrary: ys zs)
  case Nil
  then show ?case by (cases ys; cases zs) simp_all
next
  case (Cons x xs)
  then show ?case by (cases ys; cases zs) (simp_all add: assms)
qed

lemma merge_fields_assoc:
  assumes "\<And>n t a b c. (n, t) \<in> set fts \<Longrightarrow> has_type K t a \<Longrightarrow> has_type K t b \<Longrightarrow>
             has_type K t c \<Longrightarrow> merge K a (merge K b c) = merge K (merge K a b) c"
  shows "fields_have_types K fts fs \<Longrightarrow> fields_have_types K fts gs \<Longrightarrow>
         fields_have_types K fts hs \<Longrightarrow>
         merge_fields K fs (merge_fields K gs hs) = merge_fields K (merge_fields K fs gs) hs"
  using assms
proof (induction fts arbitrary: fs gs hs)
  case Nil
  then show ?case by (cases fs; cases gs; cases hs) simp_all
next
  case (Cons ft fts)
  obtain n t where ft: "ft = (n, t)" by (cases ft)
  from Cons.prems(1) ft obtain x fs' where fs: "fs = (n, x) # fs'"
    and x: "has_type K t x" and fs': "fields_have_types K fts fs'"
    by (cases fs) auto
  from Cons.prems(2) ft obtain y gs' where gs: "gs = (n, y) # gs'"
    and y: "has_type K t y" and gs': "fields_have_types K fts gs'"
    by (cases gs) auto
  from Cons.prems(3) ft obtain z hs' where hs: "hs = (n, z) # hs'"
    and z: "has_type K t z" and hs': "fields_have_types K fts hs'"
    by (cases hs) auto
  have head: "merge K x (merge K y z) = merge K (merge K x y) z"
    using Cons.prems(4) [of n t x y z] ft x y z by simp
  have tail: "merge_fields K fs' (merge_fields K gs' hs') =
              merge_fields K (merge_fields K fs' gs') hs'"
  proof (rule Cons.IH [OF fs' gs' hs'])
    fix m u a b c
    assume "(m, u) \<in> set fts" "has_type K u a" "has_type K u b" "has_type K u c"
    then show "merge K a (merge K b c) = merge K (merge K a b) c"
      using Cons.prems(4) [of m u a b c] by simp
  qed
  show ?case by (simp add: fs gs hs head tail)
qed

lemma merge_assoc:
  "has_type K t a \<Longrightarrow> has_type K t b \<Longrightarrow> has_type K t c \<Longrightarrow>
   merge K a (merge K b c) = merge K (merge K a b) c"
proof (induction t arbitrary: a b c)
  case Two_value_t
  then show ?case by (auto simp add: has_type_Two_value)
next
  case Constant_t
  then show ?case by (auto simp add: has_type_Constant)
next
  case Interval_t
  then show ?case
    by (auto simp add: has_type_Interval min_lower_assoc max_upper_assoc)
next
  case Value_set_t
  then show ?case
    by (auto simp add: has_type_Value_set sup_assoc collapse_left collapse_right)
next
  case Pointer_sensitive_t
  then show ?case
    by (auto simp add: has_type_Pointer_sensitive sup_assoc collapse_left collapse_right)
next
  case (Array_sensitive_t t n)
  have "merge_elements K xs (merge_elements K ys zs) =
        merge_elements K (merge_elements K xs ys) zs"
    if "elements_have_type K t xs" "elements_have_type K t ys" "elements_have_type K t zs"
    for xs ys zs
    by (rule merge_elements_assoc [OF Array_sensitive_t.IH that])
  with Array_sensitive_t.prems show ?case
    by (auto simp add: has_type_Array_sensitive)
next
  case (Struct_sensitive_t fts)
  have "merge K x (merge K y z) = merge K (merge K x y) z"
    if "(n, t) \<in> set fts" "has_type K t x" "has_type K t y" "has_type K t z" for n t x y z
    using Struct_sensitive_t.IH [of "(n, t)" t x y z] that by simp
  then have "merge_fields K fs (merge_fields K gs hs) =
             merge_fields K (merge_fields K fs gs) hs"
    if "fields_have_types K fts fs" "fields_have_types K fts gs" "fields_have_types K fts hs"
    for fs gs hs
    using merge_fields_assoc [of fts K fs gs hs] that by blast
  with Struct_sensitive_t.prems show ?case
    by (auto simp add: has_type_Struct_sensitive)
next
  case (Insensitive_t k t)
  then show ?case by (auto simp add: has_type_Insensitive)
qed

subsection \<open>Idempotence\<close>

lemma merge_elements_idem:
  assumes "\<And>a. has_type K t a \<Longrightarrow> merge K a a = a"
  shows "elements_have_type K t xs \<Longrightarrow> merge_elements K xs xs = xs"
  by (induction xs) (simp_all add: assms)

lemma merge_fields_idem:
  assumes "\<And>n t a. (n, t) \<in> set fts \<Longrightarrow> has_type K t a \<Longrightarrow> merge K a a = a"
  shows "fields_have_types K fts fs \<Longrightarrow> merge_fields K fs fs = fs"
  using assms
proof (induction fts arbitrary: fs)
  case Nil
  then show ?case by (cases fs) simp_all
next
  case (Cons ft fts)
  obtain n t where ft: "ft = (n, t)" by (cases ft)
  from Cons.prems(1) ft obtain x fs' where fs: "fs = (n, x) # fs'"
    and x: "has_type K t x" and fs': "fields_have_types K fts fs'"
    by (cases fs) auto
  have head: "merge K x x = x"
    using Cons.prems(2) [of n t x] ft x by simp
  have tail: "merge_fields K fs' fs' = fs'"
  proof (rule Cons.IH [OF fs'])
    fix m u a
    assume "(m, u) \<in> set fts" "has_type K u a"
    then show "merge K a a = a"
      using Cons.prems(2) [of m u a] by simp
  qed
  show ?case by (simp add: fs head tail)
qed

lemma merge_idem: "has_type K t a \<Longrightarrow> merge K a a = a"
proof (induction t arbitrary: a)
  case Two_value_t
  then show ?case by (auto simp add: has_type_Two_value)
next
  case Constant_t
  then show ?case by (auto simp add: has_type_Constant)
next
  case Interval_t
  then show ?case
    by (auto simp add: has_type_Interval min_lower_idem max_upper_idem)
next
  case Value_set_t
  then show ?case by (auto simp add: has_type_Value_set)
next
  case Pointer_sensitive_t
  then show ?case by (auto simp add: has_type_Pointer_sensitive)
next
  case (Array_sensitive_t t n)
  have "merge_elements K xs xs = xs" if "elements_have_type K t xs" for xs
    by (rule merge_elements_idem [OF Array_sensitive_t.IH that])
  with Array_sensitive_t.prems show ?case
    by (auto simp add: has_type_Array_sensitive)
next
  case (Struct_sensitive_t fts)
  have "merge K x x = x" if "(n, t) \<in> set fts" "has_type K t x" for n t x
    using Struct_sensitive_t.IH [of "(n, t)" t x] that by simp
  then have "merge_fields K fs fs = fs" if "fields_have_types K fts fs" for fs
    using merge_fields_idem [of fts K fs] that by blast
  with Struct_sensitive_t.prems show ?case
    by (auto simp add: has_type_Struct_sensitive)
next
  case (Insensitive_t k t)
  then show ?case by (auto simp add: has_type_Insensitive)
qed

subsection \<open>The lattice laws\<close>

text \<open>
  C7. For all objects \<open>a\<close>, \<open>b\<close>, \<open>c\<close> of one type, whatever the variant and
  the bound \<open>K\<close>: merge is commutative, associative and idempotent, merging with
  bottom gives \<open>a\<close> and merging with top gives top.
\<close>

theorem merge_lattice_laws:
  assumes "has_type K t a" and "has_type K t b" and "has_type K t c"
  shows "merge K a b = merge K b a
       \<and> merge K a (merge K b c) = merge K (merge K a b) c
       \<and> merge K a a = a
       \<and> merge K a Bottom = a
       \<and> merge K a Top = Top"
  using assms
  by (simp add: merge_commute [of K t a b] merge_assoc [of K t a b c] merge_idem [of K t a]
        merge_Bottom_right merge_Top_right)

theorem merge_lattice_laws_witness:
  "has_type 2 example_type example_a \<and> has_type 2 example_type example_b \<and>
   has_type 2 example_type example_c \<and>
   merge 2 example_a example_b = merge 2 example_b example_a \<and>
   merge 2 example_a (merge 2 example_b example_c) =
     merge 2 (merge 2 example_a example_b) example_c \<and>
   merge 2 example_a example_a = example_a \<and>
   merge 2 example_a Bottom = example_a \<and>
   merge 2 example_a Top = Top \<and>
   merge 2 example_a example_b = Struct_sensitive
     [(''a'', Value_set {|5, 7|}), (''b'', Array_sensitive [Interval (Some 1) (Some 7)]),
      (''c'', Insensitive Pointer_kind (Constant 4))] \<and>
   merge 2 (merge 2 example_a example_b) example_c = Struct_sensitive
     [(''a'', Top), (''b'', Array_sensitive [Interval (Some 1) (Some 7)]),
      (''c'', Insensitive Pointer_kind Top)]"
proof -
  have a: "has_type 2 example_type example_a"
    by (simp add: example_type_def example_a_def fcard_finsert_if fcard_fempty)
  have b: "has_type 2 example_type example_b"
    by (simp add: example_type_def example_b_def fcard_finsert_if fcard_fempty)
  have c: "has_type 2 example_type example_c"
    by (simp add: example_type_def example_c_def fcard_finsert_if fcard_fempty)
  have ab: "merge 2 example_a example_b = Struct_sensitive
     [(''a'', Value_set {|5, 7|}), (''b'', Array_sensitive [Interval (Some 1) (Some 7)]),
      (''c'', Insensitive Pointer_kind (Constant 4))]"
    by (auto simp add: example_a_def example_b_def fcard_finsert_if fcard_fempty)
  have abc: "merge 2 (merge 2 example_a example_b) example_c = Struct_sensitive
     [(''a'', Top), (''b'', Array_sensitive [Interval (Some 1) (Some 7)]),
      (''c'', Insensitive Pointer_kind Top)]"
    unfolding ab by (simp add: example_c_def fcard_finsert_if fcard_fempty)
  from merge_lattice_laws [OF a b c] a b c ab abc show ?thesis by simp
qed

end
